theory Spec2Isabelle
  imports Main
begin

section \<open>Constants (const.py)\<close>

text \<open>
  The two string enumerations of \<^verbatim>\<open>const.py\<close>. Each member carries its string value;
  calling the enumeration on a string that is no member's value raises \<^verbatim>\<open>ValueError\<close>.
\<close>

datatype ScannerRole = CLOSET | LAUNDRY_BIN | WASHER | DRYER | IRONING

datatype GarmentState = CLEAN | WORN | IN_LAUNDRY_BIN | WASHING | DRYING | NEEDS_IRONING

text \<open>The exceptions the modelled code can meet.\<close>

datatype py_error = KeyError | ValueError | TypeError | OSError

fun role_value :: "ScannerRole \<Rightarrow> string" where
  "role_value CLOSET = ''closet''"
| "role_value LAUNDRY_BIN = ''laundry_bin''"
| "role_value WASHER = ''washer''"
| "role_value DRYER = ''dryer''"
| "role_value IRONING = ''ironing''"

fun state_value :: "GarmentState \<Rightarrow> string" where
  "state_value CLEAN = ''clean''"
| "state_value WORN = ''worn''"
| "state_value IN_LAUNDRY_BIN = ''in_laundry_bin''"
| "state_value WASHING = ''washing''"
| "state_value DRYING = ''drying''"
| "state_value NEEDS_IRONING = ''needs_ironing''"

text \<open>\<^verbatim>\<open>ScannerRole(s)\<close> and \<^verbatim>\<open>GarmentState(s)\<close>: lookup of a member by value.\<close>

definition ScannerRole_of :: "string \<Rightarrow> py_error + ScannerRole" where
  "ScannerRole_of s =
     (if s = ''closet'' then Inr CLOSET
      else if s = ''laundry_bin'' then Inr LAUNDRY_BIN
      else if s = ''washer'' then Inr WASHER
      else if s = ''dryer'' then Inr DRYER
      else if s = ''ironing'' then Inr IRONING
      else Inl ValueError)"

definition GarmentState_of :: "string \<Rightarrow> py_error + GarmentState" where
  "GarmentState_of s =
     (if s = ''clean'' then Inr CLEAN
      else if s = ''worn'' then Inr WORN
      else if s = ''in_laundry_bin'' then Inr IN_LAUNDRY_BIN
      else if s = ''washing'' then Inr WASHING
      else if s = ''drying'' then Inr DRYING
      else if s = ''needs_ironing'' then Inr NEEDS_IRONING
      else Inl ValueError)"

definition all_roles :: "ScannerRole list" where
  "all_roles = [CLOSET, LAUNDRY_BIN, WASHER, DRYER, IRONING]"

definition all_states :: "GarmentState list" where
  "all_states = [CLEAN, WORN, IN_LAUNDRY_BIN, WASHING, DRYING, NEEDS_IRONING]"

section \<open>The state machine (state_machine.py)\<close>

text \<open>
  \<^verbatim>\<open>TRANSITIONS\<close>: the dictionary from (scanner role, from state) to the target state,
  entries in the order of the source. \<^verbatim>\<open>TRANSITIONS.get(key)\<close> is the map applied to
  the key.
\<close>

definition TRANSITIONS_items :: "((ScannerRole \<times> GarmentState) \<times> GarmentState) list" where
  "TRANSITIONS_items =
     [((CLOSET, CLEAN), WORN),
      ((CLOSET, WORN), CLEAN),
      ((CLOSET, IN_LAUNDRY_BIN), CLEAN),
      ((CLOSET, DRYING), CLEAN),
      ((CLOSET, NEEDS_IRONING), CLEAN),
      ((LAUNDRY_BIN, WORN), IN_LAUNDRY_BIN),
      ((WASHER, IN_LAUNDRY_BIN), WASHING),
      ((DRYER, WASHING), DRYING),
      ((IRONING, DRYING), NEEDS_IRONING),
      ((IRONING, WASHING), NEEDS_IRONING)]"

definition TRANSITIONS :: "(ScannerRole \<times> GarmentState) \<rightharpoonup> GarmentState" where
  "TRANSITIONS = map_of TRANSITIONS_items"

text \<open>\<^verbatim>\<open>WashCycle\<close>; its field \<^verbatim>\<open>method\<close> is \<open>wash_method\<close> here.\<close>

record WashCycle =
  timestamp :: string
  wash_method :: string

text \<open>
  \<^verbatim>\<open>GarmentData\<close>, field by field with the declared types. Python's \<^verbatim>\<open>int\<close> is
  unbounded, \<^verbatim>\<open>str | None\<close> is an option.
\<close>

record GarmentData =
  tag_id :: string
  name :: string
  category :: string
  color :: string
  garment_state :: GarmentState
  wear_count_since_wash :: int
  total_wear_count :: int
  needs_washing_threshold :: int
  last_worn :: "string option"
  last_washed :: "string option"
  last_scanned_at :: "string option"
  wash_cycles :: "WashCycle list"

text \<open>
  \<^verbatim>\<open>transition(garment, scanner_role, scanner_id)\<close> mutates the garment object in place
  and returns it, or returns \<^verbatim>\<open>None\<close> before any assignment. The model returns the pair
  (the argument object after the call, the returned value); \<open>now\<close> is the value of
  \<^verbatim>\<open>datetime.now(timezone.utc).isoformat()\<close> read by the call.
\<close>

definition transition ::
  "GarmentData \<Rightarrow> ScannerRole \<Rightarrow> string \<Rightarrow> string \<Rightarrow> GarmentData \<times> GarmentData option" where
  "transition garment scanner_role scanner_id now =
     (case TRANSITIONS (scanner_role, garment_state garment) of
        None \<Rightarrow> (garment, None)
      | Some new_state \<Rightarrow>
          (let g1 = garment\<lparr>garment_state := new_state\<rparr>;
               g2 = g1\<lparr>last_scanned_at := Some scanner_id\<rparr>;
               g3 = (if new_state = WORN
                     then g2\<lparr>wear_count_since_wash := wear_count_since_wash g2 + 1,
                             total_wear_count := total_wear_count g2 + 1,
                             last_worn := Some now\<rparr>
                     else g2);
               g4 = (if new_state = WASHING
                     then g3\<lparr>wear_count_since_wash := 0,
                             last_washed := Some now,
                             wash_cycles := wash_cycles g3 @ [\<lparr>timestamp = now, wash_method = ''machine''\<rparr>]\<rparr>
                     else g3)
           in (g4, Some g4)))"

section \<open>The transition table of the specification\<close>

text \<open>
  The table of section 4.1 of the specification, row by row as written there:
  scanner role, from state, to state.
\<close>

definition spec_table :: "(ScannerRole \<times> GarmentState \<times> GarmentState) list" where
  "spec_table =
     [(CLOSET, CLEAN, WORN),
      (CLOSET, WORN, CLEAN),
      (CLOSET, IN_LAUNDRY_BIN, CLEAN),
      (CLOSET, DRYING, CLEAN),
      (CLOSET, NEEDS_IRONING, CLEAN),
      (LAUNDRY_BIN, WORN, IN_LAUNDRY_BIN),
      (WASHER, IN_LAUNDRY_BIN, WASHING),
      (DRYER, WASHING, DRYING),
      (IRONING, DRYING, NEEDS_IRONING),
      (IRONING, WASHING, NEEDS_IRONING)]"

text \<open>
  The (role, state) keys of the table, and the pairs of a role and a state that are not
  among them: the pairs the specification says are rejected.
\<close>

definition spec_table_keys :: "(ScannerRole \<times> GarmentState) list" where
  "spec_table_keys = map (\<lambda>(r, s, t). (r, s)) spec_table"

definition rejected_pairs :: "(ScannerRole \<times> GarmentState) list" where
  "rejected_pairs =
     filter (\<lambda>k. k \<notin> set spec_table_keys) (List.product all_roles all_states)"

section \<open>Serialization (GarmentData.to_dict, GarmentData.from_dict)\<close>

text \<open>
  The stored dictionary of one garment. \<^verbatim>\<open>to_dict\<close> writes eleven keys; a dictionary
  read back may lack any of them, so each key is an option (\<open>None\<close>: the key is absent),
  holding a value of the type \<^verbatim>\<open>to_dict\<close> writes. The three nullable fields are written
  as \<^verbatim>\<open>null\<close> or a string. A stored wash cycle is a dictionary from strings to strings.
\<close>

record StoredGarment =
  k_name :: "string option"
  k_category :: "string option"
  k_color :: "string option"
  k_garment_state :: "string option"
  k_wear_count_since_wash :: "int option"
  k_total_wear_count :: "int option"
  k_needs_washing_threshold :: "int option"
  k_last_worn :: "string option option"
  k_last_washed :: "string option option"
  k_last_scanned_at :: "string option option"
  k_wash_cycles :: "(string \<rightharpoonup> string) list option"

definition to_dict :: "GarmentData \<Rightarrow> StoredGarment" where
  "to_dict self =
     \<lparr>k_name = Some (name self),
      k_category = Some (category self),
      k_color = Some (color self),
      k_garment_state = Some (state_value (garment_state self)),
      k_wear_count_since_wash = Some (wear_count_since_wash self),
      k_total_wear_count = Some (total_wear_count self),
      k_needs_washing_threshold = Some (needs_washing_threshold self),
      k_last_worn = Some (last_worn self),
      k_last_washed = Some (last_washed self),
      k_last_scanned_at = Some (last_scanned_at self),
      k_wash_cycles =
        Some (map (\<lambda>wc. [''timestamp'' \<mapsto> timestamp wc, ''method'' \<mapsto> wash_method wc])
                (wash_cycles self))\<rparr>"

text \<open>\<^verbatim>\<open>d[k]\<close> raises \<^verbatim>\<open>KeyError\<close> on an absent key; \<^verbatim>\<open>d.get(k, default)\<close> does not.\<close>

definition getitem :: "'a option \<Rightarrow> py_error + 'a" where
  "getitem v = (case v of None \<Rightarrow> Inl KeyError | Some x \<Rightarrow> Inr x)"

definition get_default :: "'a option \<Rightarrow> 'a \<Rightarrow> 'a" where
  "get_default v dflt = (case v of None \<Rightarrow> dflt | Some x \<Rightarrow> x)"

text \<open>
  The list comprehension of \<^verbatim>\<open>from_dict\<close> over the stored wash cycles: the first entry
  lacking \<^verbatim>\<open>"timestamp"\<close> or \<^verbatim>\<open>"method"\<close> raises.
\<close>

fun wash_cycles_of :: "(string \<rightharpoonup> string) list \<Rightarrow> py_error + WashCycle list" where
  "wash_cycles_of [] = Inr []"
| "wash_cycles_of (wc # rest) =
     (case getitem (wc ''timestamp'') of
        Inl e \<Rightarrow> Inl e
      | Inr t \<Rightarrow>
          (case getitem (wc ''method'') of
             Inl e \<Rightarrow> Inl e
           | Inr m \<Rightarrow>
               (case wash_cycles_of rest of
                  Inl e \<Rightarrow> Inl e
                | Inr cs \<Rightarrow> Inr (\<lparr>timestamp = t, wash_method = m\<rparr> # cs))))"

text \<open>
  \<^verbatim>\<open>from_dict\<close>: the keyword arguments are evaluated in the order written, so the first
  failing one decides the exception.
\<close>

definition from_dict :: "string \<Rightarrow> StoredGarment \<Rightarrow> py_error + GarmentData" where
  "from_dict tag data =
     (case getitem (k_name data) of
        Inl e \<Rightarrow> Inl e
      | Inr nm \<Rightarrow>
     (case getitem (k_category data) of
        Inl e \<Rightarrow> Inl e
      | Inr cat \<Rightarrow>
     (case GarmentState_of (get_default (k_garment_state data) ''clean'') of
        Inl e \<Rightarrow> Inl e
      | Inr st \<Rightarrow>
     (case wash_cycles_of (get_default (k_wash_cycles data) []) of
        Inl e \<Rightarrow> Inl e
      | Inr cycles \<Rightarrow>
          Inr \<lparr>tag_id = tag,
               name = nm,
               category = cat,
               color = get_default (k_color data) [],
               garment_state = st,
               wear_count_since_wash = get_default (k_wear_count_since_wash data) 0,
               total_wear_count = get_default (k_total_wear_count data) 0,
               needs_washing_threshold = get_default (k_needs_washing_threshold data) 3,
               last_worn = get_default (k_last_worn data) None,
               last_washed = get_default (k_last_washed data) None,
               last_scanned_at = get_default (k_last_scanned_at data) None,
               wash_cycles = cycles\<rparr>))))"

section \<open>The coordinator (coordinator.py)\<close>

text \<open>
  The coordinator's state and the part of the host it acts on:
  \<^item> \<open>garments\<close> and \<open>scanners\<close>, the two directories;
  \<^item> \<open>store_raises\<close>, what the host's \<^verbatim>\<open>Store.async_save\<close> raises when called (a
    parameter of the environment), and \<open>store_writes\<close>, the documents it accepted,
    oldest first;
  \<^item> \<open>bus\<close>, the events fired on the host's event bus, oldest first;
  \<^item> \<open>updates\<close>, the number of calls of \<^verbatim>\<open>async_set_updated_data\<close>, the change
    notification to the listeners.
\<close>

record StoredDoc =
  doc_scanners :: "string \<rightharpoonup> (string \<rightharpoonup> string)"
  doc_garments :: "string \<rightharpoonup> StoredGarment"

record BusEvent =
  event_type :: string
  event_data :: "string \<rightharpoonup> string"

record Coordinator =
  garments :: "string \<rightharpoonup> GarmentData"
  scanners :: "string \<rightharpoonup> (string \<rightharpoonup> string)"
  store_raises :: "py_error option"
  store_writes :: "StoredDoc list"
  bus :: "BusEvent list"
  updates :: nat

definition EVENT_UNKNOWN_TAG :: string where
  "EVENT_UNKNOWN_TAG = ''wardrobe_manager_unknown_tag''"

definition store_async_save :: "Coordinator \<Rightarrow> StoredDoc \<Rightarrow> py_error + Coordinator" where
  "store_async_save c data =
     (case store_raises c of
        Some e \<Rightarrow> Inl e
      | None \<Rightarrow> Inr (c\<lparr>store_writes := store_writes c @ [data]\<rparr>))"

text \<open>\<^verbatim>\<open>_async_save\<close>: \<^verbatim>\<open>except Exception\<close> catches whatever the store raises.\<close>

definition async_save :: "Coordinator \<Rightarrow> Coordinator" where
  "async_save c =
     (let data = \<lparr>doc_scanners = scanners c,
                  doc_garments = (\<lambda>tag. map_option to_dict (garments c tag))\<rparr>
      in case store_async_save c data of
           Inl e \<Rightarrow> c
         | Inr c' \<Rightarrow> c')"

definition async_set_updated_data :: "Coordinator \<Rightarrow> Coordinator" where
  "async_set_updated_data c = c\<lparr>updates := updates c + 1\<rparr>"

text \<open>
  \<^verbatim>\<open>get_scanner_role\<close>: the handler catches \<^verbatim>\<open>KeyError\<close> and \<^verbatim>\<open>ValueError\<close> only.
\<close>

definition get_scanner_role :: "Coordinator \<Rightarrow> string \<Rightarrow> py_error + ScannerRole option" where
  "get_scanner_role c scanner_id =
     (case scanners c scanner_id of
        None \<Rightarrow> Inr None
      | Some scanner \<Rightarrow>
          (case (case getitem (scanner ''role'') of
                   Inl e \<Rightarrow> Inl e
                 | Inr v \<Rightarrow> ScannerRole_of v) of
             Inr role \<Rightarrow> Inr (Some role)
           | Inl e \<Rightarrow> if e = KeyError \<or> e = ValueError then Inr None else Inl e))"

text \<open>
  \<^verbatim>\<open>handle_tag_scanned\<close>. \<^verbatim>\<open>not tag_id\<close> holds of an absent key and of the empty
  string. The garment found in the directory is the object \<^verbatim>\<open>transition\<close> mutates, so
  the directory holds that object's state after the call.
\<close>

definition falsy :: "string option \<Rightarrow> bool" where
  "falsy v = (case v of None \<Rightarrow> True | Some s \<Rightarrow> s = [])"

definition handle_tag_scanned ::
  "Coordinator \<Rightarrow> (string \<rightharpoonup> string) \<Rightarrow> string \<Rightarrow> py_error + Coordinator" where
  "handle_tag_scanned c event now =
     (if falsy (event ''tag_id'') \<or> falsy (event ''scanner_id'') then Inr c
      else
        (let tag = get_default (event ''tag_id'') [];
             scanner_id = get_default (event ''scanner_id'') []
         in case get_scanner_role c scanner_id of
              Inl e \<Rightarrow> Inl e
            | Inr None \<Rightarrow> Inr c
            | Inr (Some scanner_role) \<Rightarrow>
                (case garments c tag of
                   None \<Rightarrow>
                     Inr (c\<lparr>bus := bus c @
                            [\<lparr>event_type = EVENT_UNKNOWN_TAG,
                              event_data = [''tag_id'' \<mapsto> tag,
                                            ''scanner_role'' \<mapsto> role_value scanner_role]\<rparr>]\<rparr>)
                 | Some garment \<Rightarrow>
                     (case transition garment scanner_role scanner_id now of
                        (garment', None) \<Rightarrow>
                          Inr (c\<lparr>garments := (garments c)(tag \<mapsto> garment')\<rparr>)
                      | (garment', Some result) \<Rightarrow>
                          Inr (async_set_updated_data
                                 (async_save (c\<lparr>garments := (garments c)(tag \<mapsto> garment')\<rparr>)))))))"

definition async_register_garment ::
  "Coordinator \<Rightarrow> string \<Rightarrow> string \<Rightarrow> string \<Rightarrow> string \<Rightarrow> int \<Rightarrow> Coordinator \<times> GarmentData" where
  "async_register_garment c tag nm cat col threshold =
     (let garment = \<lparr>tag_id = tag,
                     name = nm,
                     category = cat,
                     color = col,
                     garment_state = CLEAN,
                     wear_count_since_wash = 0,
                     total_wear_count = 0,
                     needs_washing_threshold = threshold,
                     last_worn = None,
                     last_washed = None,
                     last_scanned_at = None,
                     wash_cycles = []\<rparr>
      in (async_set_updated_data (async_save (c\<lparr>garments := (garments c)(tag \<mapsto> garment)\<rparr>)),
          garment))"

definition async_force_state :: "Coordinator \<Rightarrow> string \<Rightarrow> GarmentState \<Rightarrow> Coordinator \<times> bool" where
  "async_force_state c tag state =
     (case garments c tag of
        None \<Rightarrow> (c, False)
      | Some garment \<Rightarrow>
          (async_set_updated_data
             (async_save (c\<lparr>garments := (garments c)(tag \<mapsto> garment\<lparr>garment_state := state\<rparr>)\<rparr>)),
           True))"

definition async_log_wash_cycle ::
  "Coordinator \<Rightarrow> string \<Rightarrow> string \<Rightarrow> string \<Rightarrow> Coordinator \<times> bool" where
  "async_log_wash_cycle c tag meth now =
     (case garments c tag of
        None \<Rightarrow> (c, False)
      | Some garment \<Rightarrow>
          (let g1 = garment\<lparr>garment_state := WASHING\<rparr>;
               g2 = g1\<lparr>wear_count_since_wash := 0\<rparr>;
               g3 = g2\<lparr>last_washed := Some now\<rparr>;
               g4 = g3\<lparr>wash_cycles := wash_cycles g3 @ [\<lparr>timestamp = now, wash_method = meth\<rparr>]\<rparr>
           in (async_set_updated_data
                 (async_save (c\<lparr>garments := (garments c)(tag \<mapsto> g4)\<rparr>)),
               True)))"

section \<open>The needs-washing indicator (binary_sensor.py)\<close>

definition is_on :: "Coordinator \<Rightarrow> string \<Rightarrow> bool option" where
  "is_on c tag =
     (case garments c tag of
        None \<Rightarrow> None
      | Some garment \<Rightarrow> Some (wear_count_since_wash garment \<ge> needs_washing_threshold garment))"

section \<open>The washing effects of the specification\<close>

text \<open>
  Section 4.2 of the specification, in its words: the manual wash log sets the state to
  "washing", resets \<open>wear_count_since_wash\<close> to 0, sets \<open>last_washed\<close> to the current time
  and appends a wash-cycle record with the given method label; the scan-triggered washing
  effects are the same with the label "machine".
\<close>

definition spec_washing_effects :: "string \<Rightarrow> string \<Rightarrow> GarmentData \<Rightarrow> GarmentData" where
  "spec_washing_effects label now g =
     g\<lparr>garment_state := WASHING,
       wear_count_since_wash := 0,
       last_washed := Some now,
       wash_cycles := wash_cycles g @ [\<lparr>timestamp = now, wash_method = label\<rparr>]\<rparr>"

section \<open>The two ways to register a garment (config_flow.py, __init__.py)\<close>

text \<open>
  The fields of a registration request: the user input of the options flow's
  \<^verbatim>\<open>add_garment\<close> step and the data of the \<^verbatim>\<open>register_garment\<close> service call. Colour and
  threshold are optional in both.
\<close>

record GarmentInput =
  in_tag_id :: string
  in_garment_name :: string
  in_category :: string
  in_color :: "string option"
  in_needs_washing_threshold :: "int option"

definition DEFAULT_NEEDS_WASHING_THRESHOLD :: int where
  "DEFAULT_NEEDS_WASHING_THRESHOLD = 3"

text \<open>What a flow step returns: the form again, with its errors, or the finished entry.\<close>

datatype FlowResult = ShowForm "string \<rightharpoonup> string" | CreateEntry

text \<open>
  \<^verbatim>\<open>async_step_add_garment\<close>: a tag id already in the garment directory is refused with
  the error \<^verbatim>\<open>tag_already_registered\<close>, and the coordinator is not called.
\<close>

definition async_step_add_garment ::
  "Coordinator \<Rightarrow> GarmentInput option \<Rightarrow> Coordinator \<times> FlowResult" where
  "async_step_add_garment c user_input =
     (case user_input of
        None \<Rightarrow> (c, ShowForm Map.empty)
      | Some ui \<Rightarrow>
          if garments c (in_tag_id ui) \<noteq> None
          then (c, ShowForm [''base'' \<mapsto> ''tag_already_registered''])
          else (fst (async_register_garment c (in_tag_id ui) (in_garment_name ui) (in_category ui)
                       (get_default (in_color ui) [])
                       (get_default (in_needs_washing_threshold ui)
                          DEFAULT_NEEDS_WASHING_THRESHOLD)),
                CreateEntry))"

text \<open>
  \<^verbatim>\<open>handle_register_garment\<close>, the handler of the \<^verbatim>\<open>register_garment\<close> service: it
  calls the coordinator whatever the directory holds.
\<close>

definition handle_register_garment :: "Coordinator \<Rightarrow> GarmentInput \<Rightarrow> Coordinator" where
  "handle_register_garment c call_data =
     fst (async_register_garment c (in_tag_id call_data) (in_garment_name call_data)
            (in_category call_data)
            (get_default (in_color call_data) [])
            (get_default (in_needs_washing_threshold call_data)
               DEFAULT_NEEDS_WASHING_THRESHOLD))"

section \<open>The same code over stored data of any shape\<close>

text \<open>
  The definitions above read the code on values of the declared types. Nothing in the
  code checks what the storage document holds: \<^verbatim>\<open>from_dict\<close> takes the values of the
  stored dictionary as they come, and the scanner directory is the stored object itself.
  This section reads the same functions over untyped values, so that every operation
  that can raise on such a value has its raise in the model.

  A stored value is \<^verbatim>\<open>null\<close>, a boolean, a number, a string, a list or a dictionary (the
  list of its items, in order, each key once). Numbers are integers here: a number with a fraction is
  left out; it is no state value, it can be neither iterated nor subscripted, and adding
  1 to it does not raise, like an integer.
\<close>

datatype json =
  JNull | JBool bool | JNum int | JStr string | JList "json list" | JDict "(string \<times> json) list"

type_synonym pydict = "(string \<times> json) list"

text \<open>\<^verbatim>\<open>v[key]\<close> with a string key: only a dictionary can be subscripted so.\<close>

fun subscript :: "json \<Rightarrow> string \<Rightarrow> py_error + json" where
  "subscript (JDict items) key = getitem (map_of items key)"
| "subscript v key = Inl TypeError"

text \<open>
  \<^verbatim>\<open>for x in v\<close>: a list yields its entries, a string its characters, a dictionary its
  keys; nothing else can be iterated.
\<close>

fun iterate :: "json \<Rightarrow> py_error + json list" where
  "iterate (JList xs) = Inr xs"
| "iterate (JStr s) = Inr (map (\<lambda>ch. JStr [ch]) s)"
| "iterate (JDict items) = Inr (map (\<lambda>item. JStr (fst item)) items)"
| "iterate v = Inl TypeError"

text \<open>\<^verbatim>\<open>v += 1\<close>: defined on integers and on booleans (which count as 0 and 1).\<close>

fun increment :: "json \<Rightarrow> py_error + json" where
  "increment (JNum n) = Inr (JNum (n + 1))"
| "increment (JBool b) = Inr (JNum ((if b then 1 else 0) + 1))"
| "increment v = Inl TypeError"

text \<open>
  The enumerations called on any value: a value that is not a member's string raises
  \<^verbatim>\<open>ValueError\<close>, whatever its type.
\<close>

fun GarmentState_of_dyn :: "json \<Rightarrow> py_error + GarmentState" where
  "GarmentState_of_dyn (JStr s) = GarmentState_of s"
| "GarmentState_of_dyn v = Inl ValueError"

fun ScannerRole_of_dyn :: "json \<Rightarrow> py_error + ScannerRole" where
  "ScannerRole_of_dyn (JStr s) = ScannerRole_of s"
| "ScannerRole_of_dyn v = Inl ValueError"

text \<open>
  The garment as \<^verbatim>\<open>from_dict\<close> builds it: the state has gone through the enumeration,
  every other field holds the stored value.
\<close>

record DynWashCycle =
  dyn_timestamp :: json
  dyn_method :: json

record DynGarment =
  dyn_tag_id :: string
  dyn_name :: json
  dyn_category :: json
  dyn_color :: json
  dyn_garment_state :: GarmentState
  dyn_wear_count_since_wash :: json
  dyn_total_wear_count :: json
  dyn_needs_washing_threshold :: json
  dyn_last_worn :: json
  dyn_last_washed :: json
  dyn_last_scanned_at :: json
  dyn_wash_cycles :: "DynWashCycle list"

fun wash_cycles_of_dyn :: "json list \<Rightarrow> py_error + DynWashCycle list" where
  "wash_cycles_of_dyn [] = Inr []"
| "wash_cycles_of_dyn (wc # rest) =
     (case subscript wc ''timestamp'' of
        Inl e \<Rightarrow> Inl e
      | Inr t \<Rightarrow>
          (case subscript wc ''method'' of
             Inl e \<Rightarrow> Inl e
           | Inr m \<Rightarrow>
               (case wash_cycles_of_dyn rest of
                  Inl e \<Rightarrow> Inl e
                | Inr cs \<Rightarrow> Inr (\<lparr>dyn_timestamp = t, dyn_method = m\<rparr> # cs))))"

definition from_dict_dyn :: "string \<Rightarrow> pydict \<Rightarrow> py_error + DynGarment" where
  "from_dict_dyn tag data =
     (case getitem (map_of data ''name'') of
        Inl e \<Rightarrow> Inl e
      | Inr nm \<Rightarrow>
     (case getitem (map_of data ''category'') of
        Inl e \<Rightarrow> Inl e
      | Inr cat \<Rightarrow>
     (case GarmentState_of_dyn (get_default (map_of data ''garment_state'') (JStr ''clean'')) of
        Inl e \<Rightarrow> Inl e
      | Inr st \<Rightarrow>
     (case iterate (get_default (map_of data ''wash_cycles'') (JList [])) of
        Inl e \<Rightarrow> Inl e
      | Inr entries \<Rightarrow>
     (case wash_cycles_of_dyn entries of
        Inl e \<Rightarrow> Inl e
      | Inr cycles \<Rightarrow>
          Inr \<lparr>dyn_tag_id = tag,
               dyn_name = nm,
               dyn_category = cat,
               dyn_color = get_default (map_of data ''color'') (JStr []),
               dyn_garment_state = st,
               dyn_wear_count_since_wash =
                 get_default (map_of data ''wear_count_since_wash'') (JNum 0),
               dyn_total_wear_count = get_default (map_of data ''total_wear_count'') (JNum 0),
               dyn_needs_washing_threshold =
                 get_default (map_of data ''needs_washing_threshold'') (JNum 3),
               dyn_last_worn = get_default (map_of data ''last_worn'') JNull,
               dyn_last_washed = get_default (map_of data ''last_washed'') JNull,
               dyn_last_scanned_at = get_default (map_of data ''last_scanned_at'') JNull,
               dyn_wash_cycles = cycles\<rparr>)))))"


text \<open>
  The wear block of \<^verbatim>\<open>transition\<close>: two increments and an assignment, each on the
  object as the statement before left it. The result is the object after the block and
  the exception that ended it, if one did.
\<close>

definition track_wear :: "DynGarment \<Rightarrow> string \<Rightarrow> DynGarment \<times> py_error option" where
  "track_wear g now =
     (case increment (dyn_wear_count_since_wash g) of
        Inl e \<Rightarrow> (g, Some e)
      | Inr n1 \<Rightarrow>
          (let g1 = g\<lparr>dyn_wear_count_since_wash := n1\<rparr>
           in case increment (dyn_total_wear_count g1) of
                Inl e \<Rightarrow> (g1, Some e)
              | Inr n2 \<Rightarrow>
                  (g1\<lparr>dyn_total_wear_count := n2, dyn_last_worn := JStr now\<rparr>, None)))"

text \<open>
  \<^verbatim>\<open>transition\<close>: the pair of the argument object after the call and the outcome, an
  exception or the returned value.
\<close>

definition transition_dyn ::
  "DynGarment \<Rightarrow> ScannerRole \<Rightarrow> string \<Rightarrow> string
     \<Rightarrow> DynGarment \<times> (py_error + DynGarment option)" where
  "transition_dyn garment scanner_role scanner_id now =
     (case TRANSITIONS (scanner_role, dyn_garment_state garment) of
        None \<Rightarrow> (garment, Inr None)
      | Some new_state \<Rightarrow>
          (let g1 = garment\<lparr>dyn_garment_state := new_state\<rparr>;
               g2 = g1\<lparr>dyn_last_scanned_at := JStr scanner_id\<rparr>
           in case (if new_state = WORN then track_wear g2 now else (g2, None)) of
                (g3, Some e) \<Rightarrow> (g3, Inl e)
              | (g3, None) \<Rightarrow>
                  (let g4 = (if new_state = WASHING
                             then g3\<lparr>dyn_wear_count_since_wash := JNum 0,
                                     dyn_last_washed := JStr now,
                                     dyn_wash_cycles := dyn_wash_cycles g3 @
                                       [\<lparr>dyn_timestamp = JStr now,
                                         dyn_method = JStr ''machine''\<rparr>]\<rparr>
                             else g3)
                   in (g4, Inr (Some g4)))))"

text \<open>The coordinator over such data: the scanner directory holds the stored entries.\<close>

record DynStoredDoc =
  dyn_doc_scanners :: "string \<rightharpoonup> json"
  dyn_doc_garments :: "string \<rightharpoonup> pydict"

record DynCoordinator =
  dyn_garments :: "string \<rightharpoonup> DynGarment"
  dyn_scanners :: "string \<rightharpoonup> json"
  dyn_store_raises :: "py_error option"
  dyn_store_writes :: "DynStoredDoc list"
  dyn_bus :: "BusEvent list"
  dyn_updates :: nat



text \<open>
  \<^verbatim>\<open>get_scanner_role\<close>: \<^verbatim>\<open>scanners.get\<close> gives \<^verbatim>\<open>None\<close> for an absent entry and for a
  stored \<^verbatim>\<open>null\<close>; any other entry is subscripted inside the \<^verbatim>\<open>try\<close>.
\<close>

definition get_scanner_role_dyn :: "DynCoordinator \<Rightarrow> string \<Rightarrow> py_error + ScannerRole option" where
  "get_scanner_role_dyn c scanner_id =
     (case dyn_scanners c scanner_id of
        None \<Rightarrow> Inr None
      | Some JNull \<Rightarrow> Inr None
      | Some scanner \<Rightarrow>
          (case (case subscript scanner ''role'' of
                   Inl e \<Rightarrow> Inl e
                 | Inr v \<Rightarrow> ScannerRole_of_dyn v) of
             Inr role \<Rightarrow> Inr (Some role)
           | Inl e \<Rightarrow> if e = KeyError \<or> e = ValueError then Inr None else Inl e))"




text \<open>
  The words of the statements below. A value is numeric when 1 can be added to it; a
  wash-cycle entry is good when it is a dictionary holding a timestamp and a method; a
  scanner entry is readable when it is absent, \<^verbatim>\<open>null\<close> or a dictionary.
\<close>

fun numeric :: "json \<Rightarrow> bool" where
  "numeric (JNum n) = True"
| "numeric (JBool b) = True"
| "numeric v = False"



fun readable_entry :: "json option \<Rightarrow> bool" where
  "readable_entry None = True"
| "readable_entry (Some JNull) = True"
| "readable_entry (Some (JDict items)) = True"
| "readable_entry (Some v) = False"


text \<open>
  A garment of the declared types read as such a garment: strings, integers and optional
  strings become the stored values they are written as.
\<close>

definition json_of_optional :: "string option \<Rightarrow> json" where
  "json_of_optional v = (case v of None \<Rightarrow> JNull | Some s \<Rightarrow> JStr s)"

definition dyn_of :: "GarmentData \<Rightarrow> DynGarment" where
  "dyn_of g =
     \<lparr>dyn_tag_id = tag_id g,
      dyn_name = JStr (name g),
      dyn_category = JStr (category g),
      dyn_color = JStr (color g),
      dyn_garment_state = garment_state g,
      dyn_wear_count_since_wash = JNum (wear_count_since_wash g),
      dyn_total_wear_count = JNum (total_wear_count g),
      dyn_needs_washing_threshold = JNum (needs_washing_threshold g),
      dyn_last_worn = json_of_optional (last_worn g),
      dyn_last_washed = json_of_optional (last_washed g),
      dyn_last_scanned_at = json_of_optional (last_scanned_at g),
      dyn_wash_cycles =
        map (\<lambda>wc. \<lparr>dyn_timestamp = JStr (timestamp wc), dyn_method = JStr (wash_method wc)\<rparr>)
          (wash_cycles g)\<rparr>"

section \<open>Fixtures (tests/test_state_machine.py)\<close>

text \<open>\<^verbatim>\<open>_make_garment(state)\<close> of the test suite, and a coordinator holding it.\<close>

definition make_garment :: "GarmentState \<Rightarrow> GarmentData" where
  "make_garment state =
     \<lparr>tag_id = ''test123'',
      name = ''Test Shirt'',
      category = ''shirt'',
      color = ''white'',
      garment_state = state,
      wear_count_since_wash = 0,
      total_wear_count = 0,
      needs_washing_threshold = 3,
      last_worn = None,
      last_washed = None,
      last_scanned_at = None,
      wash_cycles = []\<rparr>"

definition make_coordinator :: "GarmentData \<Rightarrow> Coordinator" where
  "make_coordinator g =
     \<lparr>garments = [tag_id g \<mapsto> g],
      scanners = [''nfc_closet'' \<mapsto> [''role'' \<mapsto> ''closet'', ''name'' \<mapsto> ''Closet''],
                  ''nfc_washer'' \<mapsto> [''role'' \<mapsto> ''washer'', ''name'' \<mapsto> ''Washer''],
                  ''nfc_broken'' \<mapsto> [''name'' \<mapsto> ''No role''],
                  ''nfc_attic'' \<mapsto> [''role'' \<mapsto> ''attic'', ''name'' \<mapsto> ''Attic'']],
      store_raises = None,
      store_writes = [],
      bus = [],
      updates = 0\<rparr>"

text \<open>The stored record \<^verbatim>\<open>{"name": "Shirt", "category": "shirt"}\<close> of \<^verbatim>\<open>test_from_dict_defaults\<close>.\<close>

definition minimal_dict :: StoredGarment where
  "minimal_dict =
     \<lparr>k_name = Some ''Shirt'',
      k_category = Some ''shirt'',
      k_color = None,
      k_garment_state = None,
      k_wear_count_since_wash = None,
      k_total_wear_count = None,
      k_needs_washing_threshold = None,
      k_last_worn = None,
      k_last_washed = None,
      k_last_scanned_at = None,
      k_wash_cycles = None\<rparr>"

text \<open>The garment of \<^verbatim>\<open>test_round_trip\<close>: worn, with one recorded wash cycle.\<close>

definition round_trip_garment :: GarmentData where
  "round_trip_garment =
     (make_garment WORN)
       \<lparr>wear_count_since_wash := 3,
        total_wear_count := 10,
        last_worn := Some ''2026-02-25T08:30:00+00:00'',
        last_washed := Some ''2026-02-20T11:00:00+00:00'',
        last_scanned_at := Some ''nfc_closet'',
        wash_cycles := [\<lparr>timestamp = ''2026-02-20T11:00:00+00:00'', wash_method = ''machine_30''\<rparr>]\<rparr>"

text \<open>A request to register the tag id of the fixture garment again.\<close>

definition reregister_input :: GarmentInput where
  "reregister_input =
     \<lparr>in_tag_id = ''test123'',
      in_garment_name = ''Test Shirt'',
      in_category = ''shirt'',
      in_color = Some ''white'',
      in_needs_washing_threshold = None\<rparr>"

text \<open>
  The minimal stored record again, as stored data of any shape; the garment
  \<^verbatim>\<open>from_dict\<close> builds from it under the tag id \<^verbatim>\<open>tag1\<close>; and a coordinator holding a
  garment, whose scanner directory has two dictionaries, a \<^verbatim>\<open>null\<close> and a string.
\<close>

definition stored_shirt :: pydict where
  "stored_shirt = [(''name'', JStr ''Shirt''), (''category'', JStr ''shirt'')]"

definition loaded_shirt :: DynGarment where
  "loaded_shirt =
     \<lparr>dyn_tag_id = ''tag1'',
      dyn_name = JStr ''Shirt'',
      dyn_category = JStr ''shirt'',
      dyn_color = JStr [],
      dyn_garment_state = CLEAN,
      dyn_wear_count_since_wash = JNum 0,
      dyn_total_wear_count = JNum 0,
      dyn_needs_washing_threshold = JNum 3,
      dyn_last_worn = JNull,
      dyn_last_washed = JNull,
      dyn_last_scanned_at = JNull,
      dyn_wash_cycles = []\<rparr>"


section \<open>The transition table\<close>

lemma TRANSITIONS_spec_table:
  "TRANSITIONS (r, s) = Some t \<longleftrightarrow> (r, s, t) \<in> set spec_table"
  by (cases r; cases s; cases t) (simp_all add: TRANSITIONS_def TRANSITIONS_items_def spec_table_def)

lemma TRANSITIONS_None_keys:
  "TRANSITIONS (r, s) = None \<longleftrightarrow> (r, s) \<notin> set spec_table_keys"
  by (cases r; cases s)
     (simp_all add: TRANSITIONS_def TRANSITIONS_items_def spec_table_keys_def spec_table_def)

lemma all_roles_UNIV: "set all_roles = UNIV"
proof -
  have "r \<in> set all_roles" for r by (cases r) (simp_all add: all_roles_def)
  then show ?thesis by blast
qed

lemma all_states_UNIV: "set all_states = UNIV"
proof -
  have "s \<in> set all_states" for s by (cases s) (simp_all add: all_states_def)
  then show ?thesis by blast
qed

text \<open>The pairs outside the table, enumerated: twenty of the thirty combinations.\<close>

lemma rejected_pairs_eq:
  "rejected_pairs =
     [(CLOSET, WASHING),
      (LAUNDRY_BIN, CLEAN), (LAUNDRY_BIN, IN_LAUNDRY_BIN), (LAUNDRY_BIN, WASHING),
      (LAUNDRY_BIN, DRYING), (LAUNDRY_BIN, NEEDS_IRONING),
      (WASHER, CLEAN), (WASHER, WORN), (WASHER, WASHING), (WASHER, DRYING),
      (WASHER, NEEDS_IRONING),
      (DRYER, CLEAN), (DRYER, WORN), (DRYER, IN_LAUNDRY_BIN), (DRYER, DRYING),
      (DRYER, NEEDS_IRONING),
      (IRONING, CLEAN), (IRONING, WORN), (IRONING, IN_LAUNDRY_BIN), (IRONING, NEEDS_IRONING)]"
  by (simp add: rejected_pairs_def spec_table_keys_def spec_table_def all_roles_def all_states_def)

lemma set_rejected_pairs: "set rejected_pairs = {k. k \<notin> set spec_table_keys}"
  by (auto simp: rejected_pairs_def all_roles_UNIV all_states_UNIV)

lemma distinct_rejected_pairs: "distinct rejected_pairs"
  by (simp add: rejected_pairs_eq)

lemma card_rejected: "card {k. k \<notin> set spec_table_keys} = 20"
proof -
  have "card (set rejected_pairs) = length rejected_pairs"
    using distinct_rejected_pairs by (rule distinct_card)
  also have "length rejected_pairs = 20"
    by (simp add: rejected_pairs_eq)
  finally show ?thesis by (simp add: set_rejected_pairs)
qed

section \<open>Accepted and rejected scans\<close>

lemma transition_accept:
  "TRANSITIONS (role, garment_state g) = Some t \<Longrightarrow>
   \<exists>g'. transition g role sid now = (g', Some g') \<and> garment_state g' = t \<and>
        last_scanned_at g' = Some sid"
  by (simp add: transition_def Let_def)

lemma transition_reject:
  "TRANSITIONS (role, garment_state g) = None \<Longrightarrow> transition g role sid now = (g, None)"
  by (simp add: transition_def)

text \<open>
  C1. For every row (role, from state, to state) of the table of section 4.1 and every
  garment whose state is the row's from state, \<open>transition\<close> accepts: it returns the
  garment, whose state is the row's to state and whose \<open>last_scanned_at\<close> is the scanner
  id supplied.
\<close>

theorem transition_table_accepted:
  assumes "(role, from_state, to_state) \<in> set spec_table"
    and "garment_state g = from_state"
  shows "\<exists>g'. transition g role sid now = (g', Some g') \<and> garment_state g' = to_state \<and>
              last_scanned_at g' = Some sid"
proof -
  from assms have "TRANSITIONS (role, garment_state g) = Some to_state"
    by (simp add: TRANSITIONS_spec_table)
  then show ?thesis by (rule transition_accept)
qed

theorem transition_table_accepted_witness:
  "(WASHER, IN_LAUNDRY_BIN, WASHING) \<in> set spec_table \<and>
   garment_state (make_garment IN_LAUNDRY_BIN) = IN_LAUNDRY_BIN \<and>
   (\<exists>g'. transition (make_garment IN_LAUNDRY_BIN) WASHER ''nfc_washer''
            ''2026-02-20T11:00:00+00:00'' = (g', Some g') \<and>
         garment_state g' = WASHING \<and> last_scanned_at g' = Some ''nfc_washer'')"
proof -
  have a: "(WASHER, IN_LAUNDRY_BIN, WASHING) \<in> set spec_table"
    by (simp add: spec_table_def)
  have b: "garment_state (make_garment IN_LAUNDRY_BIN) = IN_LAUNDRY_BIN"
    by (simp add: make_garment_def)
  from transition_table_accepted [OF a b] a b show ?thesis by blast
qed

text \<open>
  C2, as stated, counts 35 pairs of a role and a state outside the table. There are
  5 roles and 6 states, 30 pairs in all, 10 of them in the table: 20 are outside it.
\<close>

theorem rejected_pairs_counterexample:
  "length (List.product all_roles all_states) = 30 \<and> length spec_table_keys = 10 \<and>
   length rejected_pairs = 20 \<and> length rejected_pairs \<noteq> 35"
  by (simp add: rejected_pairs_eq all_roles_def all_states_def spec_table_keys_def spec_table_def)

text \<open>
  C2, amended. For every pair of a scanner role and a garment state that is not among the
  table's 10 keys (there are 20 such pairs), \<open>transition\<close> returns \<open>None\<close> and leaves the
  garment equal to what it was in every field; called again on the garment as the first
  call left it, it returns \<open>None\<close> again and still leaves the garment unchanged.
\<close>

theorem transition_rejected_unchanged:
  assumes "(role, garment_state g) \<notin> set spec_table_keys"
  shows "transition g role sid now = (g, None) \<and>
         transition (fst (transition g role sid now)) role sid now = (g, None) \<and>
         (role, garment_state g) \<in> set rejected_pairs \<and>
         card {k. k \<notin> set spec_table_keys} = 20"
proof -
  from assms have none: "TRANSITIONS (role, garment_state g) = None"
    by (simp add: TRANSITIONS_None_keys)
  then have first: "transition g role sid now = (g, None)"
    by (rule transition_reject)
  with none have second: "transition (fst (transition g role sid now)) role sid now = (g, None)"
    by (simp add: transition_reject)
  from assms have "(role, garment_state g) \<in> set rejected_pairs"
    by (simp add: set_rejected_pairs)
  with first second card_rejected show ?thesis by blast
qed

theorem transition_rejected_unchanged_witness:
  "(WASHER, garment_state (make_garment CLEAN)) \<notin> set spec_table_keys \<and>
   transition (make_garment CLEAN) WASHER ''nfc_washer'' ''2026-02-20T11:00:00+00:00''
     = (make_garment CLEAN, None) \<and>
   transition (fst (transition (make_garment CLEAN) WASHER ''nfc_washer''
                      ''2026-02-20T11:00:00+00:00''))
     WASHER ''nfc_washer'' ''2026-02-20T11:00:00+00:00'' = (make_garment CLEAN, None)"
proof -
  have a: "(WASHER, garment_state (make_garment CLEAN)) \<notin> set spec_table_keys"
    by (simp add: make_garment_def spec_table_keys_def spec_table_def)
  from transition_rejected_unchanged [OF a] a show ?thesis by blast
qed

text \<open>
  C3. Whenever \<open>transition\<close> accepts, the garment it returns is the mutated argument, its
  state is the table's target, and it differs from the garment before the call exactly as
  follows. Target "worn": state and \<open>last_scanned_at\<close> are set, \<open>wear_count_since_wash\<close>
  and \<open>total_wear_count\<close> are each one more, \<open>last_worn\<close> is the current time. Target
  "washing": state and \<open>last_scanned_at\<close> are set, \<open>wear_count_since_wash\<close> is 0,
  \<open>last_washed\<close> is the current time, and one wash cycle (current time, "machine") is
  appended; \<open>total_wear_count\<close> and \<open>last_worn\<close> stay. Any other target: only state and
  \<open>last_scanned_at\<close> are set. Every field not named keeps its value; the three cases
  exclude each other, so no transition applies both the wear and the wash effects.
\<close>

theorem transition_side_effects:
  assumes "transition g role sid now = (g', Some r)"
  shows "r = g' \<and> TRANSITIONS (role, garment_state g) = Some (garment_state g') \<and>
    (garment_state g' = WORN \<longrightarrow>
       g' = g\<lparr>garment_state := WORN, last_scanned_at := Some sid,
              wear_count_since_wash := wear_count_since_wash g + 1,
              total_wear_count := total_wear_count g + 1,
              last_worn := Some now\<rparr>) \<and>
    (garment_state g' = WASHING \<longrightarrow>
       g' = g\<lparr>garment_state := WASHING, last_scanned_at := Some sid,
              wear_count_since_wash := 0,
              last_washed := Some now,
              wash_cycles := wash_cycles g @ [\<lparr>timestamp = now, wash_method = ''machine''\<rparr>]\<rparr>) \<and>
    (garment_state g' \<noteq> WORN \<and> garment_state g' \<noteq> WASHING \<longrightarrow>
       g' = g\<lparr>garment_state := garment_state g', last_scanned_at := Some sid\<rparr>)"
  using assms
  by (auto simp: transition_def Let_def split: option.splits if_splits)

theorem transition_side_effects_witness:
  "transition round_trip_garment LAUNDRY_BIN ''nfc_bin'' ''2026-02-26T07:00:00+00:00'' =
     (round_trip_garment\<lparr>garment_state := IN_LAUNDRY_BIN, last_scanned_at := Some ''nfc_bin''\<rparr>,
      Some (round_trip_garment\<lparr>garment_state := IN_LAUNDRY_BIN, last_scanned_at := Some ''nfc_bin''\<rparr>)) \<and>
   transition (round_trip_garment\<lparr>garment_state := IN_LAUNDRY_BIN\<rparr>) WASHER ''nfc_washer''
       ''2026-02-26T09:00:00+00:00'' =
     (round_trip_garment
        \<lparr>garment_state := WASHING, last_scanned_at := Some ''nfc_washer'',
         wear_count_since_wash := 0, last_washed := Some ''2026-02-26T09:00:00+00:00'',
         wash_cycles :=
           [\<lparr>timestamp = ''2026-02-20T11:00:00+00:00'', wash_method = ''machine_30''\<rparr>,
            \<lparr>timestamp = ''2026-02-26T09:00:00+00:00'', wash_method = ''machine''\<rparr>]\<rparr>,
      Some (round_trip_garment
        \<lparr>garment_state := WASHING, last_scanned_at := Some ''nfc_washer'',
         wear_count_since_wash := 0, last_washed := Some ''2026-02-26T09:00:00+00:00'',
         wash_cycles :=
           [\<lparr>timestamp = ''2026-02-20T11:00:00+00:00'', wash_method = ''machine_30''\<rparr>,
            \<lparr>timestamp = ''2026-02-26T09:00:00+00:00'', wash_method = ''machine''\<rparr>]\<rparr>)) \<and>
   transition (make_garment CLEAN) CLOSET ''nfc_closet'' ''2026-02-25T08:30:00+00:00'' =
     ((make_garment CLEAN)
        \<lparr>garment_state := WORN, last_scanned_at := Some ''nfc_closet'',
         wear_count_since_wash := 1, total_wear_count := 1,
         last_worn := Some ''2026-02-25T08:30:00+00:00''\<rparr>,
      Some ((make_garment CLEAN)
        \<lparr>garment_state := WORN, last_scanned_at := Some ''nfc_closet'',
         wear_count_since_wash := 1, total_wear_count := 1,
         last_worn := Some ''2026-02-25T08:30:00+00:00''\<rparr>))"
proof -
  let ?t1 = "transition round_trip_garment LAUNDRY_BIN ''nfc_bin'' ''2026-02-26T07:00:00+00:00''"
  let ?t2 = "transition (round_trip_garment\<lparr>garment_state := IN_LAUNDRY_BIN\<rparr>) WASHER
               ''nfc_washer'' ''2026-02-26T09:00:00+00:00''"
  let ?t3 = "transition (make_garment CLEAN) CLOSET ''nfc_closet'' ''2026-02-25T08:30:00+00:00''"
  have k1: "TRANSITIONS (LAUNDRY_BIN, WORN) = Some IN_LAUNDRY_BIN"
    and k2: "TRANSITIONS (WASHER, IN_LAUNDRY_BIN) = Some WASHING"
    and k3: "TRANSITIONS (CLOSET, CLEAN) = Some WORN"
    by (simp_all add: TRANSITIONS_def TRANSITIONS_items_def)
  have s1: "garment_state round_trip_garment = WORN"
    by (simp add: round_trip_garment_def make_garment_def)
  have s3: "garment_state (make_garment CLEAN) = CLEAN"
    by (simp add: make_garment_def)
  have a1: "?t1 = (fst ?t1, Some (fst ?t1))" and st1: "garment_state (fst ?t1) = IN_LAUNDRY_BIN"
    using transition_accept [of LAUNDRY_BIN round_trip_garment IN_LAUNDRY_BIN
        "''nfc_bin''" "''2026-02-26T07:00:00+00:00''"] k1 s1 by auto
  have a2: "?t2 = (fst ?t2, Some (fst ?t2))" and st2: "garment_state (fst ?t2) = WASHING"
    using transition_accept [of WASHER "round_trip_garment\<lparr>garment_state := IN_LAUNDRY_BIN\<rparr>"
        WASHING "''nfc_washer''" "''2026-02-26T09:00:00+00:00''"] k2 by auto
  have a3: "?t3 = (fst ?t3, Some (fst ?t3))" and st3: "garment_state (fst ?t3) = WORN"
    using transition_accept [of CLOSET "make_garment CLEAN" WORN
        "''nfc_closet''" "''2026-02-25T08:30:00+00:00''"] k3 s3 by auto
  have e1: "fst ?t1 = round_trip_garment\<lparr>garment_state := IN_LAUNDRY_BIN,
                                            last_scanned_at := Some ''nfc_bin''\<rparr>"
    using transition_side_effects [OF a1] st1 by simp
  have w: "wash_cycles round_trip_garment =
             [\<lparr>timestamp = ''2026-02-20T11:00:00+00:00'', wash_method = ''machine_30''\<rparr>]"
    by (simp add: round_trip_garment_def)
  have e2: "fst ?t2 = round_trip_garment
        \<lparr>garment_state := WASHING, last_scanned_at := Some ''nfc_washer'',
         wear_count_since_wash := 0, last_washed := Some ''2026-02-26T09:00:00+00:00'',
         wash_cycles :=
           [\<lparr>timestamp = ''2026-02-20T11:00:00+00:00'', wash_method = ''machine_30''\<rparr>,
            \<lparr>timestamp = ''2026-02-26T09:00:00+00:00'', wash_method = ''machine''\<rparr>]\<rparr>"
    using transition_side_effects [OF a2] st2 w by simp
  have c: "wear_count_since_wash (make_garment CLEAN) = 0 \<and> total_wear_count (make_garment CLEAN) = 0"
    by (simp add: make_garment_def)
  have e3: "fst ?t3 = (make_garment CLEAN)
        \<lparr>garment_state := WORN, last_scanned_at := Some ''nfc_closet'',
         wear_count_since_wash := 1, total_wear_count := 1,
         last_worn := Some ''2026-02-25T08:30:00+00:00''\<rparr>"
    using transition_side_effects [OF a3] st3 c by simp
  from a1 a2 a3 e1 e2 e3 show ?thesis by simp
qed

section \<open>Serialization\<close>

lemma GarmentState_roundtrip: "GarmentState_of (state_value s) = Inr s"
  by (cases s) (simp_all add: GarmentState_of_def)

lemma wash_cycles_roundtrip:
  "wash_cycles_of (map (\<lambda>wc. [''timestamp'' \<mapsto> timestamp wc, ''method'' \<mapsto> wash_method wc]) cs) = Inr cs"
  by (induction cs) (simp_all add: getitem_def)

text \<open>
  C6. Serialization round-trips: for every garment record, with whatever list of wash
  cycles, \<open>from_dict\<close> applied to the record's tag id and to the dictionary \<open>to_dict\<close>
  writes for it returns normally, with a record equal to the original in every field.
\<close>

theorem serialization_round_trip: "from_dict (tag_id g) (to_dict g) = Inr g"
  by (simp add: from_dict_def to_dict_def getitem_def get_default_def
      GarmentState_roundtrip wash_cycles_roundtrip)

section \<open>The coordinator's operations\<close>

lemma async_save_frame:
  "garments (async_save c) = garments c \<and> scanners (async_save c) = scanners c \<and>
   bus (async_save c) = bus c \<and> updates (async_save c) = updates c \<and>
   store_raises (async_save c) = store_raises c"
  by (simp add: async_save_def store_async_save_def Let_def split: option.splits)

lemma notified_saved_frame:
  "garments (async_set_updated_data (async_save c)) = garments c \<and>
   scanners (async_set_updated_data (async_save c)) = scanners c \<and>
   bus (async_set_updated_data (async_save c)) = bus c \<and>
   updates (async_set_updated_data (async_save c)) = updates c + 1"
  by (simp add: async_set_updated_data_def async_save_frame)

lemma force_state_known:
  "garments c tag = Some g \<Longrightarrow>
   async_force_state c tag st =
     (async_set_updated_data
        (async_save (c\<lparr>garments := (garments c)(tag \<mapsto> g\<lparr>garment_state := st\<rparr>)\<rparr>)), True)"
  by (simp add: async_force_state_def)

lemma force_state_unknown:
  "garments c tag = None \<Longrightarrow> async_force_state c tag st = (c, False)"
  by (simp add: async_force_state_def)

lemma log_wash_known:
  "garments c tag = Some g \<Longrightarrow>
   async_log_wash_cycle c tag m now =
     (async_set_updated_data
        (async_save (c\<lparr>garments := (garments c)(tag \<mapsto> spec_washing_effects m now g)\<rparr>)), True)"
  by (simp add: async_log_wash_cycle_def spec_washing_effects_def Let_def)

lemma log_wash_unknown:
  "garments c tag = None \<Longrightarrow> async_log_wash_cycle c tag m now = (c, False)"
  by (simp add: async_log_wash_cycle_def)

lemma transition_into_washing:
  "TRANSITIONS (role, garment_state g) = Some WASHING \<Longrightarrow>
   transition g role sid now =
     ((spec_washing_effects ''machine'' now g)\<lparr>last_scanned_at := Some sid\<rparr>,
      Some ((spec_washing_effects ''machine'' now g)\<lparr>last_scanned_at := Some sid\<rparr>))"
  by (simp add: transition_def spec_washing_effects_def Let_def)

text \<open>
  C7. Force-state on a tag id present in the garment directory returns true and replaces
  that garment by itself with the state set to the requested value, whichever of the six
  states that is and whatever the state before: every other field of the garment (both
  counters, the three nullable fields, the wash cycles, the descriptive fields), every
  other garment, the scanner directory and the event bus are as before, and one change
  notification is sent. On a tag id absent from the directory it returns false and the
  coordinator is unchanged.
\<close>

theorem force_state_frame:
  "(garments c tag = Some g \<longrightarrow>
      (\<exists>c'. async_force_state c tag st = (c', True) \<and>
            garments c' = (garments c)(tag \<mapsto> g\<lparr>garment_state := st\<rparr>) \<and>
            scanners c' = scanners c \<and> bus c' = bus c \<and> updates c' = updates c + 1)) \<and>
   (garments c tag = None \<longrightarrow> async_force_state c tag st = (c, False))"
  by (simp add: force_state_known force_state_unknown notified_saved_frame)

theorem force_state_frame_witness:
  "garments (make_coordinator round_trip_garment) ''test123'' = Some round_trip_garment \<and>
   snd (async_force_state (make_coordinator round_trip_garment) ''test123'' WASHING) = True \<and>
   garments (fst (async_force_state (make_coordinator round_trip_garment) ''test123'' WASHING))
     ''test123'' = Some (round_trip_garment\<lparr>garment_state := WASHING\<rparr>) \<and>
   garments (make_coordinator round_trip_garment) ''tag404'' = None \<and>
   async_force_state (make_coordinator round_trip_garment) ''tag404'' WASHING
     = (make_coordinator round_trip_garment, False)"
proof -
  have t: "tag_id round_trip_garment = ''test123''"
    by (simp add: round_trip_garment_def make_garment_def)
  have a: "garments (make_coordinator round_trip_garment) ''test123'' = Some round_trip_garment"
    by (simp add: make_coordinator_def t)
  have b: "garments (make_coordinator round_trip_garment) ''tag404'' = None"
    by (simp add: make_coordinator_def t)
  from force_state_frame [of "make_coordinator round_trip_garment" "''test123''"
      round_trip_garment WASHING] a
  have "snd (async_force_state (make_coordinator round_trip_garment) ''test123'' WASHING) = True \<and>
   garments (fst (async_force_state (make_coordinator round_trip_garment) ''test123'' WASHING))
     ''test123'' = Some (round_trip_garment\<lparr>garment_state := WASHING\<rparr>)"
    by auto
  moreover from force_state_frame [of "make_coordinator round_trip_garment" "''tag404''"
      round_trip_garment WASHING] b
  have "async_force_state (make_coordinator round_trip_garment) ''tag404'' WASHING
     = (make_coordinator round_trip_garment, False)"
    by simp
  ultimately show ?thesis using a b by simp
qed

text \<open>
  C8. The manual wash log on a tag id present in the garment directory, whatever the
  garment's state, returns true and replaces the garment by the specification's washing
  effects with the caller's label: state "washing", \<open>wear_count_since_wash\<close> 0,
  \<open>last_washed\<close> the current time, one wash cycle (current time, label) appended, every
  other field (\<open>total_wear_count\<close> and \<open>last_scanned_at\<close> among them) as before. On a tag
  id absent from the directory it returns false and changes nothing. A scan that the
  table sends into "washing" has the same effects with the label "machine", and sets
  \<open>last_scanned_at\<close> besides.
\<close>

theorem log_wash_cycle_effects:
  "(garments c tag = Some g \<longrightarrow>
      (\<exists>c'. async_log_wash_cycle c tag m now = (c', True) \<and>
            garments c' = (garments c)(tag \<mapsto> spec_washing_effects m now g) \<and>
            scanners c' = scanners c \<and> bus c' = bus c \<and> updates c' = updates c + 1) \<and>
      spec_washing_effects m now g =
        g\<lparr>garment_state := WASHING, wear_count_since_wash := 0, last_washed := Some now,
          wash_cycles := wash_cycles g @ [\<lparr>timestamp = now, wash_method = m\<rparr>]\<rparr>) \<and>
   (garments c tag = None \<longrightarrow> async_log_wash_cycle c tag m now = (c, False)) \<and>
   (TRANSITIONS (role, garment_state g) = Some WASHING \<longrightarrow>
      transition g role sid now =
        ((spec_washing_effects ''machine'' now g)\<lparr>last_scanned_at := Some sid\<rparr>,
         Some ((spec_washing_effects ''machine'' now g)\<lparr>last_scanned_at := Some sid\<rparr>)))"
  by (simp add: log_wash_known log_wash_unknown notified_saved_frame transition_into_washing)
     (simp add: spec_washing_effects_def)

theorem log_wash_cycle_effects_witness:
  "garments (make_coordinator (make_garment WORN)) ''test123'' = Some (make_garment WORN) \<and>
   snd (async_log_wash_cycle (make_coordinator (make_garment WORN)) ''test123'' ''hand''
          ''2026-02-26T09:00:00+00:00'') = True \<and>
   garments (fst (async_log_wash_cycle (make_coordinator (make_garment WORN)) ''test123'' ''hand''
                    ''2026-02-26T09:00:00+00:00'')) ''test123''
     = Some ((make_garment WORN)
               \<lparr>garment_state := WASHING, wear_count_since_wash := 0,
                last_washed := Some ''2026-02-26T09:00:00+00:00'',
                wash_cycles := [\<lparr>timestamp = ''2026-02-26T09:00:00+00:00'', wash_method = ''hand''\<rparr>]\<rparr>) \<and>
   garments (make_coordinator (make_garment WORN)) ''tag404'' = None \<and>
   async_log_wash_cycle (make_coordinator (make_garment WORN)) ''tag404'' ''hand''
       ''2026-02-26T09:00:00+00:00''
     = (make_coordinator (make_garment WORN), False) \<and>
   TRANSITIONS (WASHER, garment_state (make_garment IN_LAUNDRY_BIN)) = Some WASHING \<and>
   fst (transition (make_garment IN_LAUNDRY_BIN) WASHER ''nfc_washer'' ''2026-02-26T09:00:00+00:00'')
     = (spec_washing_effects ''machine'' ''2026-02-26T09:00:00+00:00'' (make_garment IN_LAUNDRY_BIN))
         \<lparr>last_scanned_at := Some ''nfc_washer''\<rparr>"
proof -
  let ?c = "make_coordinator (make_garment WORN)"
  let ?now = "''2026-02-26T09:00:00+00:00''"
  have a: "garments ?c ''test123'' = Some (make_garment WORN)"
    by (simp add: make_coordinator_def make_garment_def)
  have b: "garments ?c ''tag404'' = None"
    by (simp add: make_coordinator_def make_garment_def)
  have k: "TRANSITIONS (WASHER, garment_state (make_garment IN_LAUNDRY_BIN)) = Some WASHING"
    by (simp add: TRANSITIONS_def TRANSITIONS_items_def make_garment_def)
  have w: "wash_cycles (make_garment WORN) = []"
    by (simp add: make_garment_def)
  from log_wash_cycle_effects [of ?c "''test123''" "make_garment WORN" "''hand''" ?now
      WASHER "''nfc_washer''"] a w
  have "snd (async_log_wash_cycle ?c ''test123'' ''hand'' ?now) = True \<and>
        garments (fst (async_log_wash_cycle ?c ''test123'' ''hand'' ?now)) ''test123''
          = Some ((make_garment WORN)
               \<lparr>garment_state := WASHING, wear_count_since_wash := 0,
                last_washed := Some ?now,
                wash_cycles := [\<lparr>timestamp = ?now, wash_method = ''hand''\<rparr>]\<rparr>)"
    by auto
  moreover from log_wash_cycle_effects [of ?c "''tag404''" "make_garment WORN" "''hand''" ?now
      WASHER "''nfc_washer''"] b
  have "async_log_wash_cycle ?c ''tag404'' ''hand'' ?now = (?c, False)"
    by simp
  moreover from log_wash_cycle_effects [of ?c "''tag404''" "make_garment IN_LAUNDRY_BIN" "''hand''"
      ?now WASHER "''nfc_washer''"] k
  have "fst (transition (make_garment IN_LAUNDRY_BIN) WASHER ''nfc_washer'' ?now)
     = (spec_washing_effects ''machine'' ?now (make_garment IN_LAUNDRY_BIN))
         \<lparr>last_scanned_at := Some ''nfc_washer''\<rparr>"
    by simp
  ultimately show ?thesis using a b k by simp
qed

section \<open>The needs-washing indicator\<close>

text \<open>
  C10. The needs-washing indicator of a tag id with no garment record is \<open>None\<close>; for a
  tag id with a record it is on exactly when \<open>wear_count_since_wash\<close> is at least
  \<open>needs_washing_threshold\<close>, so it is on when the two are equal.
\<close>

theorem needs_washing_indicator:
  "(garments c tag = None \<longrightarrow> is_on c tag = None) \<and>
   (garments c tag = Some g \<longrightarrow>
      is_on c tag = Some (wear_count_since_wash g \<ge> needs_washing_threshold g) \<and>
      (wear_count_since_wash g = needs_washing_threshold g \<longrightarrow> is_on c tag = Some True))"
  by (simp add: is_on_def)

theorem needs_washing_indicator_witness:
  "garments (make_coordinator round_trip_garment) ''tag404'' = None \<and>
   is_on (make_coordinator round_trip_garment) ''tag404'' = None \<and>
   garments (make_coordinator round_trip_garment) ''test123'' = Some round_trip_garment \<and>
   wear_count_since_wash round_trip_garment = needs_washing_threshold round_trip_garment \<and>
   is_on (make_coordinator round_trip_garment) ''test123'' = Some True \<and>
   garments (make_coordinator (make_garment WORN)) ''test123'' = Some (make_garment WORN) \<and>
   is_on (make_coordinator (make_garment WORN)) ''test123'' = Some False"
proof -
  have t: "tag_id round_trip_garment = ''test123''"
    by (simp add: round_trip_garment_def make_garment_def)
  have a: "garments (make_coordinator round_trip_garment) ''tag404'' = None"
    and b: "garments (make_coordinator round_trip_garment) ''test123'' = Some round_trip_garment"
    by (simp_all add: make_coordinator_def t)
  have e: "wear_count_since_wash round_trip_garment = needs_washing_threshold round_trip_garment"
    by (simp add: round_trip_garment_def make_garment_def)
  have d: "garments (make_coordinator (make_garment WORN)) ''test123'' = Some (make_garment WORN)"
    by (simp add: make_coordinator_def make_garment_def)
  have f: "\<not> wear_count_since_wash (make_garment WORN) \<ge> needs_washing_threshold (make_garment WORN)"
    by (simp add: make_garment_def)
  from needs_washing_indicator [of "make_coordinator round_trip_garment" "''tag404''" round_trip_garment] a
  have "is_on (make_coordinator round_trip_garment) ''tag404'' = None" by simp
  moreover
  from needs_washing_indicator [of "make_coordinator round_trip_garment" "''test123''" round_trip_garment] b e
  have "is_on (make_coordinator round_trip_garment) ''test123'' = Some True" by simp
  moreover
  from needs_washing_indicator [of "make_coordinator (make_garment WORN)" "''test123''" "make_garment WORN"] d f
  have "is_on (make_coordinator (make_garment WORN)) ''test123'' = Some False" by simp
  ultimately show ?thesis using a b d e by simp
qed

section \<open>Inbound scans\<close>

lemma get_scanner_role_total: "\<exists>r. get_scanner_role c sid = Inr r"
  by (cases "scanners c sid")
     (auto simp: get_scanner_role_def getitem_def ScannerRole_of_def split: option.splits sum.splits)


lemma handle_missing:
  "falsy (ev ''tag_id'') \<or> falsy (ev ''scanner_id'') \<Longrightarrow> handle_tag_scanned c ev now = Inr c"
  by (simp add: handle_tag_scanned_def)

lemma handle_unresolved:
  "ev ''scanner_id'' = Some sid \<Longrightarrow> get_scanner_role c sid = Inr None \<Longrightarrow>
   handle_tag_scanned c ev now = Inr c"
  by (simp add: handle_tag_scanned_def get_default_def Let_def)

lemma handle_resolved:
  "ev ''tag_id'' = Some tag \<Longrightarrow> tag \<noteq> [] \<Longrightarrow> ev ''scanner_id'' = Some sid \<Longrightarrow> sid \<noteq> [] \<Longrightarrow>
   get_scanner_role c sid = Inr (Some role) \<Longrightarrow>
   handle_tag_scanned c ev now =
     (case garments c tag of
        None \<Rightarrow>
          Inr (c\<lparr>bus := bus c @
                 [\<lparr>event_type = EVENT_UNKNOWN_TAG,
                   event_data = [''tag_id'' \<mapsto> tag, ''scanner_role'' \<mapsto> role_value role]\<rparr>]\<rparr>)
      | Some garment \<Rightarrow>
          (case transition garment role sid now of
             (garment', None) \<Rightarrow> Inr (c\<lparr>garments := (garments c)(tag \<mapsto> garment')\<rparr>)
           | (garment', Some result) \<Rightarrow>
               Inr (async_set_updated_data
                      (async_save (c\<lparr>garments := (garments c)(tag \<mapsto> garment')\<rparr>)))))"
  by (simp add: handle_tag_scanned_def get_default_def Let_def falsy_def)

lemma handle_cases:
  "handle_tag_scanned c ev now = Inr c \<or>
   (\<exists>tag sid role. ev ''tag_id'' = Some tag \<and> tag \<noteq> [] \<and> ev ''scanner_id'' = Some sid \<and>
      sid \<noteq> [] \<and> get_scanner_role c sid = Inr (Some role))"
proof (cases "falsy (ev ''tag_id'') \<or> falsy (ev ''scanner_id'')")
  case True
  then show ?thesis by (simp add: handle_missing)
next
  case False
  then obtain tag sid where ev: "ev ''tag_id'' = Some tag" "tag \<noteq> []"
      "ev ''scanner_id'' = Some sid" "sid \<noteq> []"
    by (auto simp: falsy_def split: option.splits)
  obtain r where r: "get_scanner_role c sid = Inr r"
    using get_scanner_role_total by blast
  show ?thesis
  proof (cases r)
    case None
    with r ev show ?thesis by (simp add: handle_unresolved)
  next
    case (Some role)
    with r ev show ?thesis by blast
  qed
qed

lemma handle_known_garment:
  assumes "ev ''tag_id'' = Some tag" "tag \<noteq> []" "ev ''scanner_id'' = Some sid" "sid \<noteq> []"
    and "get_scanner_role c sid = Inr (Some role)" and "garments c tag = Some garment"
  shows "\<exists>c'. handle_tag_scanned c ev now = Inr c' \<and> bus c' = bus c \<and> scanners c' = scanners c \<and>
          garments c' = (garments c)(tag \<mapsto> fst (transition garment role sid now))"
  using assms
  by (cases "transition garment role sid now")
     (auto simp: handle_resolved notified_saved_frame split: option.splits)

lemma handle_unknown_tag:
  assumes "ev ''tag_id'' = Some tag" "tag \<noteq> []" "ev ''scanner_id'' = Some sid" "sid \<noteq> []"
    and "get_scanner_role c sid = Inr (Some role)" and "garments c tag = None"
  shows "handle_tag_scanned c ev now =
     Inr (c\<lparr>bus := bus c @
            [\<lparr>event_type = EVENT_UNKNOWN_TAG,
              event_data = [''tag_id'' \<mapsto> tag, ''scanner_role'' \<mapsto> role_value role]\<rparr>]\<rparr>)"
  using assms by (simp add: handle_resolved)




section \<open>The wash-cycle history\<close>

lemma transition_wash_cycles_length:
  "length (wash_cycles g) \<le> length (wash_cycles (fst (transition g role sid now)))"
  by (simp add: transition_def Let_def split: option.splits)

lemma register_installs_fresh:
  "garments (fst (async_register_garment c tag nm cat col thr)) =
     (garments c)(tag \<mapsto>
       \<lparr>tag_id = tag, name = nm, category = cat, color = col, garment_state = CLEAN,
        wear_count_since_wash = 0, total_wear_count = 0, needs_washing_threshold = thr,
        last_worn = None, last_washed = None, last_scanned_at = None, wash_cycles = []\<rparr>)"
  by (simp add: async_register_garment_def Let_def notified_saved_frame)

lemma handle_wash_cycles_length:
  assumes "garments c t = Some g" and "handle_tag_scanned c ev now = Inr c'"
  shows "\<exists>g'. garments c' t = Some g' \<and> length (wash_cycles g) \<le> length (wash_cycles g')"
proof (cases "handle_tag_scanned c ev now = Inr c")
  case True
  with assms show ?thesis by simp
next
  case False
  with handle_cases [of c ev now] obtain tag sid role where
    ev: "ev ''tag_id'' = Some tag" "tag \<noteq> []" "ev ''scanner_id'' = Some sid" "sid \<noteq> []"
      "get_scanner_role c sid = Inr (Some role)"
    by blast
  show ?thesis
  proof (cases "garments c tag")
    case None
    from handle_unknown_tag [OF ev None, of now] assms show ?thesis by auto
  next
    case (Some garment)
    from handle_known_garment [OF ev Some, of now] assms(2)
    have c': "garments c' = (garments c)(tag \<mapsto> fst (transition garment role sid now))"
      by auto
    show ?thesis
    proof (cases "t = tag")
      case True
      with Some assms(1) have "garment = g" by simp
      with c' True show ?thesis by (simp add: transition_wash_cycles_length)
    next
      case False
      with c' assms(1) show ?thesis by simp
    qed
  qed
qed

lemma force_state_wash_cycles:
  assumes "garments c t = Some g"
  shows "\<exists>g'. garments (fst (async_force_state c tag st)) t = Some g' \<and>
           wash_cycles g' = wash_cycles g"
proof (cases "garments c tag")
  case None
  with assms show ?thesis by (simp add: force_state_unknown)
next
  case (Some garment)
  with assms show ?thesis by (auto simp: force_state_known notified_saved_frame)
qed

lemma log_wash_wash_cycles:
  assumes "garments c t = Some g"
  shows "\<exists>g'. garments (fst (async_log_wash_cycle c tag m now)) t = Some g' \<and>
           length (wash_cycles g) \<le> length (wash_cycles g')"
proof (cases "garments c tag")
  case None
  with assms show ?thesis by (simp add: log_wash_unknown)
next
  case (Some garment)
  with assms show ?thesis
    by (auto simp: log_wash_known notified_saved_frame spec_washing_effects_def)
qed

lemma handle_register_garment_installs_fresh:
  "garments (handle_register_garment c d) =
     (garments c)(in_tag_id d \<mapsto>
       \<lparr>tag_id = in_tag_id d, name = in_garment_name d, category = in_category d,
        color = get_default (in_color d) [], garment_state = CLEAN,
        wear_count_since_wash = 0, total_wear_count = 0,
        needs_washing_threshold =
          get_default (in_needs_washing_threshold d) DEFAULT_NEEDS_WASHING_THRESHOLD,
        last_worn = None, last_washed = None, last_scanned_at = None, wash_cycles = []\<rparr>)"
  by (simp add: handle_register_garment_def register_installs_fresh)

lemma add_garment_step_refuses_known_tag:
  "garments c (in_tag_id ui) = Some g \<Longrightarrow>
   async_step_add_garment c (Some ui) = (c, ShowForm [''base'' \<mapsto> ''tag_already_registered''])"
  by (simp add: async_step_add_garment_def)

text \<open>
  Scans, force-state and the manual wash log keep the history of every garment in the
  directory, on whatever tag id they are called; so does the \<^verbatim>\<open>add_garment\<close> step of the
  options flow when the tag id is the garment's own.
\<close>

lemma wash_cycles_kept:
  assumes "garments c t = Some g"
  shows "length (wash_cycles g) \<le> length (wash_cycles (fst (transition g role sid now))) \<and>
    (\<forall>c'. handle_tag_scanned c ev now = Inr c' \<longrightarrow>
       (\<exists>g'. garments c' t = Some g' \<and> length (wash_cycles g) \<le> length (wash_cycles g'))) \<and>
    (\<exists>g'. garments (fst (async_force_state c tag st)) t = Some g' \<and>
       wash_cycles g' = wash_cycles g) \<and>
    (\<exists>g'. garments (fst (async_log_wash_cycle c tag m now)) t = Some g' \<and>
       length (wash_cycles g) \<le> length (wash_cycles g')) \<and>
    garments (fst (async_step_add_garment c (Some (ui\<lparr>in_tag_id := t\<rparr>)))) t = Some g"
proof -
  have "garments (fst (async_step_add_garment c (Some (ui\<lparr>in_tag_id := t\<rparr>)))) t = Some g"
    using assms by (simp add: async_step_add_garment_def)
  with assms show ?thesis
    using transition_wash_cycles_length [of g role sid now]
      handle_wash_cycles_length [of c t g ev now]
      force_state_wash_cycles [of c t g tag st]
      log_wash_wash_cycles [of c t g tag m now]
    by blast
qed

text \<open>
  C4. The service path of registration breaks the claim. The options flow refuses a tag
  id that is already registered (\<^verbatim>\<open>tag_already_registered\<close>) and leaves the record as it
  is; the handler of the \<^verbatim>\<open>register_garment\<close> service has no such check and calls
  \<^verbatim>\<open>async_register_garment\<close> ("Register a new garment"), which overwrites the record
  with a fresh one. Registering the tag id of a garment with one recorded wash cycle
  through the service leaves a record with no wash cycle.
\<close>

theorem service_reregistration_wipes_history:
  "map_option wash_cycles (garments (make_coordinator round_trip_garment) ''test123'')
     = Some [\<lparr>timestamp = ''2026-02-20T11:00:00+00:00'', wash_method = ''machine_30''\<rparr>] \<and>
   map_option wash_cycles
     (garments (handle_register_garment (make_coordinator round_trip_garment) reregister_input)
        ''test123'')
     = Some [] \<and>
   async_step_add_garment (make_coordinator round_trip_garment) (Some reregister_input)
     = (make_coordinator round_trip_garment, ShowForm [''base'' \<mapsto> ''tag_already_registered''])"
proof -
  have t: "in_tag_id reregister_input = ''test123''"
    by (simp add: reregister_input_def)
  have g: "garments (make_coordinator round_trip_garment) ''test123'' = Some round_trip_garment"
    by (simp add: make_coordinator_def round_trip_garment_def make_garment_def)
  have w: "wash_cycles round_trip_garment =
      [\<lparr>timestamp = ''2026-02-20T11:00:00+00:00'', wash_method = ''machine_30''\<rparr>]"
    by (simp add: round_trip_garment_def)
  have "async_step_add_garment (make_coordinator round_trip_garment) (Some reregister_input)
     = (make_coordinator round_trip_garment, ShowForm [''base'' \<mapsto> ''tag_already_registered''])"
    using g by (simp add: add_garment_step_refuses_known_tag t)
  then show ?thesis
    using g w by (simp add: handle_register_garment_installs_fresh t)
qed

section \<open>Which operations can raise\<close>

lemma increment_numeric: "numeric v \<Longrightarrow> \<exists>w. increment v = Inr w"
  by (cases v) simp_all

lemma increment_not_numeric: "\<not> numeric v \<Longrightarrow> increment v = Inl TypeError"
  by (cases v) simp_all




lemma transition_dyn_raises:
  assumes "TRANSITIONS (role, dyn_garment_state g) = Some WORN"
    and "\<not> (numeric (dyn_wear_count_since_wash g) \<and> numeric (dyn_total_wear_count g))"
  shows "snd (transition_dyn g role sid now) = Inl TypeError"
proof (cases "numeric (dyn_wear_count_since_wash g)")
  case False
  then have "increment (dyn_wear_count_since_wash g) = Inl TypeError"
    by (rule increment_not_numeric)
  with assms(1) show ?thesis by (simp add: transition_dyn_def track_wear_def Let_def)
next
  case True
  then obtain w where w: "increment (dyn_wear_count_since_wash g) = Inr w"
    using increment_numeric by blast
  from True assms(2) have "increment (dyn_total_wear_count g) = Inl TypeError"
    by (simp add: increment_not_numeric)
  with w assms(1) show ?thesis by (simp add: transition_dyn_def track_wear_def Let_def)
qed


















lemma get_scanner_role_dyn_unreadable:
  "\<not> readable_entry (dyn_scanners c sid) \<Longrightarrow> get_scanner_role_dyn c sid = Inl TypeError"
proof (cases "dyn_scanners c sid")
  case None
  assume "\<not> readable_entry (dyn_scanners c sid)"
  with None show ?thesis by simp
next
  case (Some entry)
  assume "\<not> readable_entry (dyn_scanners c sid)"
  with Some show ?thesis
    by (cases entry) (simp_all add: get_scanner_role_dyn_def)
qed







text \<open>
  On a garment of the declared types the transition over stored values is the transition
  of the first part; the minimal stored record is read with the defaults.
\<close>

lemma transition_dyn_typed:
  "transition_dyn (dyn_of g) role sid now =
     (dyn_of (fst (transition g role sid now)),
      Inr (map_option dyn_of (snd (transition g role sid now))))"
  by (cases "TRANSITIONS (role, garment_state g)")
     (auto simp: transition_dyn_def transition_def track_wear_def dyn_of_def Let_def
        json_of_optional_def)

lemma loaded_shirt_read: "from_dict_dyn ''tag1'' stored_shirt = Inr loaded_shirt"
  by (simp add: from_dict_dyn_def stored_shirt_def loaded_shirt_def getitem_def get_default_def
      GarmentState_of_def)




end
